theory Spec2Isabelle
  imports Complex_Main "HOL-Library.Sublist" "HOL-Library.Multiset"
begin

section \<open>Python strings\<close>

text \<open>
  The text that the program builds and sends (names, paths, messages, the lines of
  the narration) is modelled as a \<open>string\<close>: the bytes of its UTF-8 encoding. A line
  that \<open>readline\<close> returns is a \<open>str\<close> whose characters matter one by one, so it is
  modelled as the list of its Unicode code points, and encoded when it is yielded.

  \<open>py_isspace\<close> is the whitespace of \<open>str.isspace\<close> and \<open>str.rstrip()\<close>: the code points
  U+0009..U+000D, U+001C..U+0020, U+0085, U+00A0, U+1680, U+2000..U+200A, U+2028,
  U+2029, U+202F, U+205F and U+3000. \<open>rstrip\<close> is \<open>str.rstrip()\<close> without argument,
  which removes the trailing characters that satisfy it.
\<close>

type_synonym pystr = "nat list"

definition py_isspace :: "nat \<Rightarrow> bool" where
  "py_isspace c =
     ((0x09 \<le> c \<and> c \<le> 0x0D) \<or> (0x1C \<le> c \<and> c \<le> 0x20) \<or> c = 0x85 \<or> c = 0xA0 \<or>
      c = 0x1680 \<or> (0x2000 \<le> c \<and> c \<le> 0x200A) \<or> c = 0x2028 \<or> c = 0x2029 \<or>
      c = 0x202F \<or> c = 0x205F \<or> c = 0x3000)"

definition rstrip :: "pystr \<Rightarrow> pystr" where
  "rstrip s = rev (dropWhile py_isspace (rev s))"


text \<open>
  The UTF-8 bytes of a code point and of a \<open>str\<close>, and the code points of a literal
  of ASCII characters.
\<close>

definition utf8 :: "nat \<Rightarrow> string" where
  "utf8 c =
     (if c < 0x80 then [char_of c]
      else if c < 0x800 then [char_of (0xC0 + c div 0x40), char_of (0x80 + c mod 0x40)]
      else if c < 0x10000
      then [char_of (0xE0 + c div 0x1000), char_of (0x80 + c div 0x40 mod 0x40),
            char_of (0x80 + c mod 0x40)]
      else [char_of (0xF0 + c div 0x40000), char_of (0x80 + c div 0x1000 mod 0x40),
            char_of (0x80 + c div 0x40 mod 0x40), char_of (0x80 + c mod 0x40)])"

definition encode :: "pystr \<Rightarrow> string" where
  "encode s = concat (map utf8 s)"

definition codepoints :: "string \<Rightarrow> pystr" where
  "codepoints s = map of_char s"

text \<open>\<open>sub in text\<close> on strings.\<close>

fun str_contains :: "string \<Rightarrow> string \<Rightarrow> bool" where
  "str_contains [] sub = (sub = [])"
| "str_contains (c # cs) sub = (prefix sub (c # cs) \<or> str_contains cs sub)"

text \<open>\<open>str(n)\<close> for an integer: decimal digits, with a minus sign when negative.\<close>

fun str_nat :: "nat \<Rightarrow> string" where
  "str_nat n = (if n < 10 then [''0123456789'' ! n]
                else str_nat (n div 10) @ [''0123456789'' ! (n mod 10)])"

declare str_nat.simps [simp del]

definition str_int :: "int \<Rightarrow> string" where
  "str_int i = (if i < 0 then ''-'' @ str_nat (nat (- i)) else str_nat (nat i))"

text \<open>\<open>str(b)\<close> for a boolean.\<close>

definition str_bool :: "bool \<Rightarrow> string" where
  "str_bool b = (if b then ''True'' else ''False'')"

text \<open>\<open>' '.join(cmd)\<close>.\<close>

fun join_space :: "string list \<Rightarrow> string" where
  "join_space [] = []"
| "join_space [w] = w"
| "join_space (w # ws) = w @ '' '' @ join_space ws"


section \<open>The job registry\<close>

text \<open>
  \<open>_jobs\<close> is a dictionary from (book, mp3) to the process handle, guarded by one
  lock: every access below is one atomic step. A handle is modelled by the process id.
  \<open>register_job\<close> is the statement \<open>_jobs[(book, mp3)] = proc\<close>, \<open>unregister_job\<close> is
  \<open>_jobs.pop((book, mp3), None)\<close>, \<open>job_running\<close> is \<open>(book, mp3) in _jobs\<close>.
\<close>

type_synonym job_key = "string \<times> string"
type_synonym jobs = "job_key \<rightharpoonup> nat"

definition register_job :: "jobs \<Rightarrow> job_key \<Rightarrow> nat \<Rightarrow> jobs" where
  "register_job js k proc = js(k \<mapsto> proc)"

definition unregister_job :: "jobs \<Rightarrow> job_key \<Rightarrow> jobs" where
  "unregister_job js k = js(k := None)"

definition job_running :: "jobs \<Rightarrow> string \<Rightarrow> string \<Rightarrow> bool" where
  "job_running js book mp3 = ((book, mp3) \<in> dom js)"


section \<open>The capability probe\<close>

text \<open>
  What \<open>subprocess.run\<close> does is the input of the model: it raises (tool missing,
  timeout, undecodable output; the text is \<open>str(e)\<close>), or it returns the exit code
  with the captured standard output and standard error.
\<close>

datatype run_result = RunRaises string | RunCompleted int string string

record capabilities =
  word_timestamps_available :: bool
  highlight_words_available :: bool
  installed :: bool

definition get_whisper_capabilities :: "run_result \<Rightarrow> capabilities" where
  "get_whisper_capabilities r =
     (case r of
        RunCompleted returncode out err \<Rightarrow>
          (let help_text = out @ err
           in \<lparr> word_timestamps_available = str_contains help_text ''--word_timestamps'',
                highlight_words_available = str_contains help_text ''--highlight_words'',
                installed = (returncode = 0) \<rparr>)
      | RunRaises e \<Rightarrow>
          \<lparr> word_timestamps_available = False,
            highlight_words_available = False,
            installed = False \<rparr>)"

text \<open>
  \<open>lru_cache(maxsize=1)\<close> on a function without arguments: the first call runs the
  probe and stores its value, every later call returns the stored value. The cache is
  passed in and returned.
\<close>

definition get_whisper_capabilities_cached ::
  "capabilities option \<Rightarrow> run_result \<Rightarrow> capabilities \<times> capabilities option" where
  "get_whisper_capabilities_cached cache r =
     (case cache of
        Some c \<Rightarrow> (c, cache)
      | None \<Rightarrow> (let c = get_whisper_capabilities r in (c, Some c)))"


section \<open>The transcription runner\<close>

text \<open>
  The command line of \<open>whisper_stream\<close>: ten fixed arguments, then the optional
  feature flags. \<open>mp3_path\<close> and \<open>folder\<close> are the strings of the two paths.
\<close>

definition MODEL :: string where
  "MODEL = ''medium''"

definition whisper_cmd :: "string \<Rightarrow> string \<Rightarrow> bool \<Rightarrow> bool \<Rightarrow> capabilities \<Rightarrow> string list" where
  "whisper_cmd mp3_path folder enable_word_timestamps enable_highlighting caps =
     (let cmd = [''whisper'', mp3_path,
                 ''--model'', MODEL,
                 ''--output_format'', ''vtt'',
                 ''--output_dir'', folder,
                 ''--fp16'', ''False'']
      in if enable_word_timestamps \<and> word_timestamps_available caps
         then (let cmd = cmd @ [''--word_timestamps'', ''True'']
               in if enable_highlighting \<and> highlight_words_available caps
                  then cmd @ [''--highlight_words'', ''True'']
                  else cmd)
         else cmd)"

text \<open>
  One result of \<open>proc.stdout.readline\<close>: a line of text (the empty string is the end
  of the file), or an exception with its text (output that cannot be decoded
  raises).
\<close>

datatype read = Line pystr | ReadRaises string

text \<open>
  The loop \<open>for line in iter(proc.stdout.readline, '')\<close>: the lines it yields, and the
  exception that ended it, if one did. The end of the list is the end of the file.
\<close>

fun read_loop :: "read list \<Rightarrow> pystr list \<times> string option" where
  "read_loop [] = ([], None)"
| "read_loop (ReadRaises e # rest) = ([], Some e)"
| "read_loop (Line raw # rest) =
     (if raw = [] then ([], None)
      else (let line = rstrip raw
            in if line = [] then read_loop rest
               else (let (ys, exc) = read_loop rest
                     in ((line @ [0x0A]) # ys, exc))))"

text \<open>
  What the external process does: \<open>Popen\<close> raises, or the process starts with a
  handle, produces the results of \<open>readline\<close> in order and ends with an exit code.
\<close>

datatype tool_run = PopenRaises string | Started nat "read list" int

text \<open>
  The check of the caption file after the process has ended: it is missing, it is
  there (with the answer of \<open>has_word_timestamps\<close>), or the check raises.
\<close>

datatype vtt_check = VttMissing | VttFound bool | VttRaises string

text \<open>
  The answer of \<open>mp3_path.exists()\<close>, the first statement that looks at the file
  system: the file is there, it is not, or the check itself raises (\<open>Path.exists\<close>
  passes on an \<open>OSError\<close> such as a refused permission).
\<close>

datatype path_check = PathExists | PathMissing | PathCheckRaises string

text \<open>
  The world of one run. The first three fields are the strings of the paths
  \<open>BOOKS / book / mp3\<close>, \<open>BOOKS / book\<close> and \<open>caption_path(book, mp3)\<close>, which the model
  takes as given; \<open>env_caps\<close> is the cached value of the capability probe; \<open>env_tool\<close>
  is the behaviour of the external process as a function of its command line.
\<close>

record run_env =
  env_mp3_path :: string
  env_folder :: string
  env_expected_vtt :: string
  env_mp3_check :: path_check
  env_caps :: capabilities
  env_tool :: "string list \<Rightarrow> tool_run"
  env_vtt :: vtt_check

text \<open>
  The generator is modelled by the trace of what it does, in order: a line handed
  to the consumer, one atomic step on the registry, or an exception that leaves the
  generator and ends it.
\<close>

datatype event = Yield string | Register job_key nat | Unregister job_key | Raise string

text \<open>
  The branch \<open>except Exception as e\<close>, which narrates the exception and then removes
  the key, and the last line of a run that reached the end of the \<open>try\<close> block.
\<close>

definition except_handler :: "job_key \<Rightarrow> string \<Rightarrow> event list" where
  "except_handler k e = [Yield (''\<newline>EXCEPTION: '' @ e @ ''\<newline>''), Unregister k]"

definition status_lines :: "string \<Rightarrow> int \<Rightarrow> event list" where
  "status_lines mp3 returncode =
     (if returncode \<noteq> 0
      then [Yield (''\<newline>ERROR: Whisper process failed with exit code '' @ str_int returncode @ ''\<newline>'')]
      else [Yield (''\<newline>[DONE '' @ mp3 @ '' - SUCCESS]\<newline>'')])"

definition whisper_stream :: "string \<Rightarrow> string \<Rightarrow> bool \<Rightarrow> bool \<Rightarrow> run_env \<Rightarrow> event list" where
  "whisper_stream book mp3 enable_word_timestamps enable_highlighting env =
     (case env_mp3_check env of
        PathCheckRaises e \<Rightarrow> [Raise e]
      | PathMissing \<Rightarrow> [Yield (''Error: MP3 file not found: '' @ env_mp3_path env @ ''\<newline>'')]
      | PathExists \<Rightarrow>
        (let cmd = whisper_cmd (env_mp3_path env) (env_folder env)
                     enable_word_timestamps enable_highlighting (env_caps env);
             head =
               [Yield (''Starting Whisper transcription for: '' @ mp3 @ ''\<newline>''),
                Yield (''Command: '' @ join_space cmd @ ''\<newline>''),
                Yield (''Word timestamps: '' @
                       (if enable_word_timestamps \<and> word_timestamps_available (env_caps env)
                        then ''enabled'' else ''disabled'') @ ''\<newline>''),
                Yield (''Word highlighting: '' @
                       (if enable_highlighting \<and> highlight_words_available (env_caps env)
                        then ''enabled'' else ''disabled'') @ ''\<newline>\<newline>'')];
             k = (book, mp3)
         in head @
           (case env_tool env cmd of
              PopenRaises e \<Rightarrow> except_handler k e
            | Started proc reads returncode \<Rightarrow>
                Register k proc #
                (case read_loop reads of
                   (ys, Some e) \<Rightarrow> map Yield (map encode ys) @ except_handler k e
                 | (ys, None) \<Rightarrow>
                     map Yield (map encode ys) @ [Unregister k] @
                     (case env_vtt env of
                        VttRaises e \<Rightarrow> except_handler k e
                      | VttFound has_words \<Rightarrow>
                          [Yield (''\<newline>SUCCESS: VTT file created at '' @ env_expected_vtt env @ ''\<newline>''),
                           Yield (''Word-level timestamps: '' @
                                  (if has_words then ''Yes'' else ''No'') @ ''\<newline>'')]
                          @ status_lines mp3 returncode
                      | VttMissing \<Rightarrow>
                          [Yield (''\<newline>WARNING: Expected VTT file not found at '' @
                                  env_expected_vtt env @ ''\<newline>'')]
                          @ status_lines mp3 returncode)))))"

text \<open>
  The lines the consumer receives, the exception that ends the generator (if one
  does), and the effect of a trace on the registry.
\<close>

fun narration :: "event list \<Rightarrow> string list" where
  "narration [] = []"
| "narration (Yield s # es) = s # narration es"
| "narration (Raise e # es) = []"
| "narration (_ # es) = narration es"

fun raised :: "event list \<Rightarrow> string option" where
  "raised [] = None"
| "raised (Raise e # es) = Some e"
| "raised (_ # es) = raised es"

fun run_events :: "event list \<Rightarrow> jobs \<Rightarrow> jobs" where
  "run_events [] js = js"
| "run_events (Yield s # es) js = run_events es js"
| "run_events (Register k proc # es) js = run_events es (register_job js k proc)"
| "run_events (Unregister k # es) js = run_events es (unregister_job js k)"
| "run_events (Raise e # es) js = js"

text \<open>
  A consumer that stops reading closes the generator: \<open>GeneratorExit\<close> is raised at the
  \<open>yield\<close> where the generator waits. It is not an \<open>Exception\<close>, so the handler of
  \<open>whisper_stream\<close> does not catch it, and there is no \<open>finally\<close>: nothing more of the
  generator runs. \<open>abandon n\<close> is the trace of a generator that is closed when the
  consumer has received \<open>n\<close> lines: what it does up to the \<open>n\<close>-th \<open>yield\<close>.
\<close>

fun abandon :: "nat \<Rightarrow> event list \<Rightarrow> event list" where
  "abandon 0 es = []"
| "abandon (Suc n) [] = []"
| "abandon (Suc n) (Yield s # es) = Yield s # abandon n es"
| "abandon (Suc n) (e # es) = e # abandon (Suc n) es"


section \<open>The parallel scheduler\<close>

text \<open>
  \<open>transcribe_single\<close> drains \<open>whisper_stream(book, mp3)\<close>, called with these two arguments
  only, into a list of tagged lines. An exception that leaves the generator leaves
  the worker too, and the lines collected so far are lost with it.
\<close>

definition transcribe_single :: "string \<Rightarrow> string \<Rightarrow> run_env \<Rightarrow> string + (string \<times> string list)" where
  "transcribe_single book mp3 env =
     (let trace = whisper_stream book mp3 True True env
      in case raised trace of
           Some e \<Rightarrow> Inl e
         | None \<Rightarrow> Inr (mp3, map (\<lambda>line. ''['' @ mp3 @ ''] '' @ line) (narration trace)))"

text \<open>The body of the loop over the completed futures, for the future of \<open>mp3\<close>.\<close>

definition future_block :: "string \<Rightarrow> string \<Rightarrow> run_env \<Rightarrow> string list" where
  "future_block book mp3 env =
     (case transcribe_single book mp3 env of
        Inr (mp3_name, output_lines) \<Rightarrow>
          [''\<newline>=== COMPLETED: '' @ mp3_name @ '' ===\<newline>''] @ output_lines @
          [''=== END: '' @ mp3_name @ '' ===\<newline>\<newline>'']
      | Inl e \<Rightarrow>
          [''\<newline>=== ERROR: '' @ mp3 @ '' ===\<newline>'',
           ''Exception: '' @ e @ ''\<newline>'',
           ''=== END ERROR: '' @ mp3 @ '' ===\<newline>\<newline>''])"

fun emit_completed :: "string \<Rightarrow> (string \<Rightarrow> run_env) \<Rightarrow> string list \<Rightarrow> string list" where
  "emit_completed book env_of [] = []"
| "emit_completed book env_of (mp3 # rest) =
     future_block book mp3 (env_of mp3) @ emit_completed book env_of rest"

text \<open>
  \<open>as_completed\<close> hands out every submitted future once, in an order that the
  timing of the workers decides. The order is an input of the model: \<open>rank\<close> gives each
  item its place, and any order of distinct items is the one of a suitable \<open>rank\<close>.
\<close>

definition as_completed :: "(string \<Rightarrow> nat) \<Rightarrow> string list \<Rightarrow> string list" where
  "as_completed rank futures = sort_key rank futures"

text \<open>
  A generator that can end in an exception: the lines it yields and the exception,
  if any. \<open>ThreadPoolExecutor\<close> raises \<open>ValueError\<close> when \<open>max_workers\<close> is not
  positive. \<open>env_of\<close> is the world of the run of each item (the items of a book are
  file names, distinct from each other).
\<close>

type_synonym generated = "string list \<times> string option"

definition whisper_stream_parallel ::
  "string \<Rightarrow> string list \<Rightarrow> int \<Rightarrow> (string \<Rightarrow> run_env) \<Rightarrow> (string \<Rightarrow> nat) \<Rightarrow> generated" where
  "whisper_stream_parallel book mp3_files max_workers env_of rank =
     (let start = ''Starting parallel transcription of '' @ str_nat (length mp3_files) @
                  '' files with '' @ str_int max_workers @ '' workers\<newline>\<newline>''
      in if max_workers \<le> 0
         then ([start], Some ''max_workers must be greater than 0'')
         else (start # emit_completed book env_of (as_completed rank mp3_files), None))"


section \<open>The route that captions a whole book\<close>

text \<open>
  The JSON body of the request; a field that is absent takes the default of
  \<open>data.get\<close>. \<open>files_to_process\<close> is the list of the files without captions.
\<close>

record gen_all_request =
  req_book :: string
  req_parallel :: "bool option"
  req_max_workers :: "int option"
  req_word_timestamps :: "bool option"
  req_highlighting :: "bool option"

definition get_default :: "'a option \<Rightarrow> 'a \<Rightarrow> 'a" where
  "get_default v d = (case v of Some x \<Rightarrow> x | None \<Rightarrow> d)"

text \<open>The generator \<open>batch\<close> of the sequential path.\<close>

fun batch :: "string \<Rightarrow> bool \<Rightarrow> bool \<Rightarrow> (string \<Rightarrow> run_env) \<Rightarrow> string list \<Rightarrow> generated" where
  "batch book enable_word_timestamps enable_highlighting env_of [] = ([], None)"
| "batch book enable_word_timestamps enable_highlighting env_of (mp3 # rest) =
     (let banner = ''\<newline>=== '' @ mp3 @ '' ===\<newline>'';
          trace = whisper_stream book mp3 enable_word_timestamps enable_highlighting (env_of mp3)
      in case raised trace of
           Some e \<Rightarrow> (banner # narration trace, Some e)
         | None \<Rightarrow>
             (let (ys, exc) = batch book enable_word_timestamps enable_highlighting env_of rest
              in (banner # narration trace @ ys, exc)))"

definition stream_book_captions_route ::
  "gen_all_request \<Rightarrow> string list \<Rightarrow> (string \<Rightarrow> run_env) \<Rightarrow> (string \<Rightarrow> nat) \<Rightarrow> generated" where
  "stream_book_captions_route data files_to_process env_of rank =
     (let enable_word_timestamps = get_default (req_word_timestamps data) True;
          enable_highlighting = get_default (req_highlighting data) True
      in if files_to_process = []
         then ([''All files already have transcripts\<newline>''], None)
         else if get_default (req_parallel data) False \<and> length files_to_process > 1
         then whisper_stream_parallel (req_book data) files_to_process
                (get_default (req_max_workers data) 2) env_of rank
         else batch (req_book data) enable_word_timestamps enable_highlighting env_of
                files_to_process)"


section \<open>The speed benchmark\<close>

text \<open>
  The settings of a benchmark are a dictionary of boolean flags; \<open>settings.get(k, True)\<close>
  reads one. Times and durations are Python floats, modelled as real numbers.
\<close>

type_synonym settings = "string \<rightharpoonup> bool"

definition settings_get :: "settings \<Rightarrow> string \<Rightarrow> bool \<Rightarrow> bool" where
  "settings_get s k d = (case s k of Some v \<Rightarrow> v | None \<Rightarrow> d)"

definition speed_test_cmd ::
  "string \<Rightarrow> string \<Rightarrow> string \<Rightarrow> settings \<Rightarrow> capabilities \<Rightarrow> string list" where
  "speed_test_cmd test_audio_path model_to_test temp_dir test_settings caps =
     (let cmd = [''whisper'', test_audio_path,
                 ''--model'', model_to_test,
                 ''--output_format'', ''vtt'',
                 ''--output_dir'', temp_dir,
                 ''--fp16'', ''False'']
      in if settings_get test_settings ''word_timestamps'' True \<and> word_timestamps_available caps
         then (let cmd = cmd @ [''--word_timestamps'', ''True'']
               in if settings_get test_settings ''highlighting'' True \<and>
                     highlight_words_available caps
                  then cmd @ [''--highlight_words'', ''True'']
                  else cmd)
         else cmd)"

text \<open>
  What \<open>subprocess.run\<close> does with the command of the benchmark: it returns (exit
  code, standard error, and the readings of \<open>time.time()\<close> before and after), the
  timeout of 120 seconds expires, or it raises something else.
\<close>

datatype speed_run = SpeedCompleted int string real real | SpeedTimeout | SpeedRaises string

record speed_result =
  success :: bool
  processing_time :: real
  audio_duration :: real
  speed_ratio :: real
  model_tested :: string
  settings_tested :: settings
  error :: "string option"

text \<open>\<open>duration\<close> is the value of \<open>get_audio_duration(test_audio_path)\<close>.\<close>

definition test_whisper_speed ::
  "string \<Rightarrow> string \<Rightarrow> settings \<Rightarrow> string \<Rightarrow> capabilities \<Rightarrow>
   (string list \<Rightarrow> speed_run) \<Rightarrow> real \<Rightarrow> speed_result" where
  "test_whisper_speed test_audio_path model_to_test test_settings temp_dir caps run duration =
     (let cmd = speed_test_cmd test_audio_path model_to_test temp_dir test_settings caps
      in case run cmd of
           SpeedCompleted returncode stderr start_time end_time \<Rightarrow>
             (let processing_time = end_time - start_time;
                  audio_duration = duration;
                  speed_ratio = (if audio_duration > 0 \<and> processing_time > 0
                                 then audio_duration / processing_time else 0)
              in \<lparr> success = (returncode = 0),
                   processing_time = processing_time,
                   audio_duration = audio_duration,
                   speed_ratio = speed_ratio,
                   model_tested = model_to_test,
                   settings_tested = test_settings,
                   error = (if returncode \<noteq> 0 then Some stderr else None) \<rparr>)
         | SpeedTimeout \<Rightarrow>
             \<lparr> success = False,
               processing_time = 120,
               audio_duration = duration,
               speed_ratio = 0,
               model_tested = model_to_test,
               settings_tested = test_settings,
               error = Some ''Transcription speed test timed out'' \<rparr>
         | SpeedRaises e \<Rightarrow>
             \<lparr> success = False,
               processing_time = 0,
               audio_duration = duration,
               speed_ratio = 0,
               model_tested = model_to_test,
               settings_tested = test_settings,
               error = Some e \<rparr>)"


section \<open>The store of speed ratios\<close>

definition get_speed_test_key :: "string \<Rightarrow> settings \<Rightarrow> string" where
  "get_speed_test_key model_name settings =
     (let word_ts = settings_get settings ''word_timestamps'' True;
          highlight = settings_get settings ''highlighting'' True
      in model_name @ '':'' @ str_bool word_ts @ '':'' @ str_bool highlight)"

text \<open>
  The file \<open>speed_ratios.json\<close>: absent, unreadable (the read or the parse raises), or
  holding a JSON object, a dictionary from keys to records. A record is any JSON
  value; writing a dictionary and reading it back gives the same dictionary. The file
  is written by \<open>save_speed_ratio_data\<close> only, so a file that holds JSON other than an
  object, or bytes that are not UTF-8, is not modelled.
\<close>

datatype 'r speed_file = NoFile | Unreadable | Stored "string \<rightharpoonup> 'r"

definition load_saved_speed_ratios :: "'r speed_file \<Rightarrow> (string \<rightharpoonup> 'r)" where
  "load_saved_speed_ratios f =
     (case f of Stored all_ratios \<Rightarrow> all_ratios | Unreadable \<Rightarrow> Map.empty | NoFile \<Rightarrow> Map.empty)"

text \<open>
  \<open>write_text\<close> succeeds, or raises an \<open>IOError\<close> that is logged and dropped; the file
  it leaves behind in that case is part of the outcome.
\<close>

datatype 'r write_result = Written | WriteFails "'r speed_file"

definition save_speed_ratio_data ::
  "string \<Rightarrow> 'r \<Rightarrow> 'r write_result \<Rightarrow> 'r speed_file \<Rightarrow> 'r speed_file" where
  "save_speed_ratio_data key data w f =
     (let all_ratios = load_saved_speed_ratios f;
          all_ratios = all_ratios(key \<mapsto> data)
      in case w of Written \<Rightarrow> Stored all_ratios | WriteFails left \<Rightarrow> left)"

text \<open>
  The answer of the route \<open>/api/speed-ratio\<close>: the record with status 200, or a message
  with status 404. \<open>find_speed_ratio\<close> is the lookup of the key in the loaded
  dictionary, the last steps of the route; the query flags arrive parsed.
\<close>

datatype 'r response = Found 'r | NotFound string

definition find_speed_ratio :: "string \<Rightarrow> 'r speed_file \<Rightarrow> 'r response" where
  "find_speed_ratio key_to_find f =
     (let all_ratios = load_saved_speed_ratios f
      in case all_ratios key_to_find of
           Some r \<Rightarrow> Found r
         | None \<Rightarrow> NotFound (''No speed ratio found for key: '' @ key_to_find))"

definition get_speed_ratio_route ::
  "string option \<Rightarrow> bool \<Rightarrow> bool \<Rightarrow> 'r speed_file \<Rightarrow> 'r response" where
  "get_speed_ratio_route model word_ts highlight_words_param f =
     (let model_name = get_default model MODEL;
          query_settings = [''word_timestamps'' \<mapsto> word_ts,
                            ''highlighting'' \<mapsto> highlight_words_param];
          key_to_find = get_speed_test_key model_name query_settings
      in find_speed_ratio key_to_find f)"


section \<open>Example worlds\<close>

text \<open>
  A tool with every capability; a run whose process starts with handle 7, prints a
  line with trailing blanks, a blank line and a second line, and ends with exit code
  1 without writing captions; and a run whose first look at the file system raises.
\<close>

definition caps_all :: capabilities where
  "caps_all = \<lparr> word_timestamps_available = True,
                highlight_words_available = True,
                installed = True \<rparr>"

definition failing_run_env :: run_env where
  "failing_run_env =
     \<lparr> env_mp3_path = ''/books/b/01.mp3'',
       env_folder = ''/books/b'',
       env_expected_vtt = ''/books/b/01.vtt'',
       env_mp3_check = PathExists,
       env_caps = caps_all,
       env_tool = (\<lambda>cmd. Started 7 [Line (codepoints ''one  \<newline>''),
                                      Line (codepoints ''\<newline>''),
                                      Line (codepoints ''two\<newline>'')] 1),
       env_vtt = VttMissing \<rparr>"

definition denied_env :: run_env where
  "denied_env = failing_run_env \<lparr> env_mp3_check := PathCheckRaises ''Permission denied'' \<rparr>"

text \<open>
  A book of three items: the third cannot be looked at; the second finishes first
  and the first finishes last.
\<close>

definition three_items :: "string \<Rightarrow> run_env" where
  "three_items mp3 = (if mp3 = ''c.mp3'' then denied_env else failing_run_env)"

definition finish_order :: "string \<Rightarrow> nat" where
  "finish_order mp3 = (if mp3 = ''a.mp3'' then 2 else if mp3 = ''b.mp3'' then 0 else 1)"


section \<open>Traces\<close>

lemma run_events_yields: "run_events (map Yield ys @ es) js = run_events es js"
  by (induction ys) simp_all

lemma run_events_yields_map: "run_events (map (Yield \<circ> f) ys @ es) js = run_events es js"
  by (induction ys) simp_all

lemma run_events_except: "run_events (except_handler k e) js = unregister_job js k"
  by (simp add: except_handler_def)

lemma run_events_status: "run_events (status_lines mp3 rc) js = js"
  by (simp add: status_lines_def)

lemma narration_yields: "narration (map Yield ys @ es) = ys @ narration es"
  by (induction ys) simp_all


lemma whisper_stream_registry:
  "env_mp3_check env = PathExists \<Longrightarrow>
   run_events (whisper_stream book mp3 ewt ehl env) js = unregister_job js (book, mp3)"
  by (simp add: whisper_stream_def run_events_yields_map run_events_except run_events_status
      unregister_job_def register_job_def Let_def
      split: tool_run.splits vtt_check.splits prod.splits option.splits)

lemma register_needs_file:
  "Register k proc \<in> set (whisper_stream book mp3 ewt ehl env) \<Longrightarrow>
   env_mp3_check env = PathExists"
  by (auto simp add: whisper_stream_def split: path_check.splits)

lemma raised_yields_map: "raised (map (Yield \<circ> f) ys @ es) = raised es"
  by (induction ys) simp_all

lemma whisper_stream_raised:
  "env_mp3_check env = PathExists \<Longrightarrow> raised (whisper_stream book mp3 ewt ehl env) = None"
  by (simp add: whisper_stream_def Let_def raised_yields_map except_handler_def status_lines_def
      split: tool_run.splits vtt_check.splits prod.splits option.splits)

lemma run_events_only_yields: "run_events (map (Yield \<circ> f) ys) js = js"
  using run_events_yields_map [of f ys "[]" js] by simp

lemma abandon_yields:
  "abandon n (map (Yield \<circ> f) ys @ es) =
     (if n \<le> length ys then map (Yield \<circ> f) (take n ys)
      else map (Yield \<circ> f) ys @ abandon (n - length ys) es)"
proof (induction ys arbitrary: n)
  case Nil
  then show ?case by (cases n) simp_all
next
  case (Cons y ys)
  then show ?case by (cases n) simp_all
qed


section \<open>Registration\<close>

text \<open>
  C1, as the specification has it: a second registration of a key that is present
  fails with AlreadyRunning and leaves the first handle in place. The code stores the
  new handle: after the key is registered with handle 1 and then with handle 2, the
  registry holds handle 2 for it.
\<close>

theorem register_job_duplicate_counterexample:
  "job_running (register_job Map.empty (''book'', ''01.mp3'') 1) ''book'' ''01.mp3'' \<and>
   register_job (register_job Map.empty (''book'', ''01.mp3'') 1) (''book'', ''01.mp3'') 2
     (''book'', ''01.mp3'') = Some 2 \<and>
   register_job (register_job Map.empty (''book'', ''01.mp3'') 1) (''book'', ''01.mp3'') 2
     (''book'', ''01.mp3'') \<noteq> Some 1"
  by (simp add: register_job_def job_running_def)

text \<open>
  C1, amended: registration never fails. Registering a key stores the new handle
  for it, whether the key was present or not; of two registrations of one key both
  succeed and the registry keeps the handle of the later one; the entries of the
  other keys stay as they were, and the key counts as running afterwards.
\<close>

theorem register_job_replaces_handle:
  "register_job js k proc k = Some proc \<and>
   register_job (register_job js k p1) k p2 = register_job js k p2 \<and>
   unregister_job (register_job js k proc) k = unregister_job js k \<and>
   job_running (register_job js (book, mp3) proc) book mp3"
  by (simp add: register_job_def job_running_def unregister_job_def)


section \<open>The key of a run in the registry\<close>

text \<open>
  A run whose narration is read to its end removes its key, whatever the process
  does (it ends with any exit code, reading its output raises, the check of the
  caption file raises): after the whole trace the registry is the initial one without
  the key of the run.
\<close>

lemma whisper_stream_read_to_end:
  "Register (book, mp3) proc \<in> set (whisper_stream book mp3 ewt ehl env) \<Longrightarrow>
   \<not> job_running (run_events (whisper_stream book mp3 ewt ehl env) js) book mp3 \<and>
   run_events (whisper_stream book mp3 ewt ehl env) js = unregister_job js (book, mp3)"
proof -
  assume "Register (book, mp3) proc \<in> set (whisper_stream book mp3 ewt ehl env)"
  then have "env_mp3_check env = PathExists"
    by (rule register_needs_file)
  then have "run_events (whisper_stream book mp3 ewt ehl env) js = unregister_job js (book, mp3)"
    by (rule whisper_stream_registry)
  then show ?thesis
    by (simp add: job_running_def unregister_job_def)
qed

text \<open>
  C2 says that the key is removed on every exit path and is never left registered.
  The code removes it after \<open>proc.wait()\<close> and in the handler of \<open>Exception\<close>, and on no
  other path. When the consumer closes the narration of a run whose process has
  started, after the fifth line or a later one and before the key is removed (while
  the lines of the tool are yielded, or at the line that narrates an exception of
  \<open>readline\<close>), the key of the run stays in the registry.
\<close>

theorem closed_stream_leaves_key_registered:
  assumes "env_mp3_check env = PathExists"
    and "env_tool env (whisper_cmd (env_mp3_path env) (env_folder env) ewt ehl (env_caps env))
         = Started proc reads rc"
    and "4 < n"
    and "n \<le> 4 + length (fst (read_loop reads)) + (if snd (read_loop reads) = None then 0 else 1)"
  shows "job_running (run_events (abandon n (whisper_stream book mp3 ewt ehl env)) js) book mp3"
proof -
  obtain ys exc where rl: "read_loop reads = (ys, exc)"
    by (cases "read_loop reads")
  have "\<exists>m. n = Suc (Suc (Suc (Suc (Suc m))))"
    using \<open>4 < n\<close> by presburger
  then obtain m where n: "n = Suc (Suc (Suc (Suc (Suc m))))"
    by blast
  show ?thesis
  proof (cases exc)
    case None
    with assms rl n have m: "Suc m \<le> length ys"
      by simp
    with assms(1,2) rl n None show ?thesis
      by (simp add: whisper_stream_def Let_def abandon_yields run_events_only_yields
          job_running_def register_job_def del: take_Suc_Cons)
  next
    case (Some e)
    with assms rl n have m: "Suc m \<le> Suc (length ys)"
      by simp
    show ?thesis
    proof (cases "Suc m \<le> length ys")
      case True
      with assms(1,2) rl n Some show ?thesis
        by (simp add: whisper_stream_def Let_def abandon_yields run_events_only_yields
            job_running_def register_job_def)
    next
      case False
      with m have "Suc m - length ys = Suc 0"
        by simp
      with False assms(1,2) rl n Some show ?thesis
        by (simp add: whisper_stream_def Let_def abandon_yields run_events_yields_map
            except_handler_def job_running_def register_job_def)
    qed
  qed
qed

theorem closed_stream_leaves_key_registered_witness:
  "env_mp3_check failing_run_env = PathExists \<and>
   (4::nat) < 5 \<and>
   job_running
     (run_events (abandon 5 (whisper_stream ''b'' ''01.mp3'' True True failing_run_env)) Map.empty)
     ''b'' ''01.mp3''"
proof -
  have e: "env_mp3_check failing_run_env = PathExists"
    by (simp add: failing_run_env_def)
  have t: "env_tool failing_run_env
             (whisper_cmd (env_mp3_path failing_run_env) (env_folder failing_run_env) True True
                (env_caps failing_run_env))
           = Started 7 [Line (codepoints ''one  \<newline>''), Line (codepoints ''\<newline>''),
                        Line (codepoints ''two\<newline>'')] 1"
    by (simp add: failing_run_env_def)
  have l: "(4::nat) < 5"
    by simp
  have u: "(5::nat) \<le> 4 + length (fst (read_loop [Line (codepoints ''one  \<newline>''),
              Line (codepoints ''\<newline>''), Line (codepoints ''two\<newline>'')])) +
            (if snd (read_loop [Line (codepoints ''one  \<newline>''),
              Line (codepoints ''\<newline>''), Line (codepoints ''two\<newline>'')]) = None then 0 else 1)"
    by (simp add: codepoints_def rstrip_def py_isspace_def Let_def)
  from closed_stream_leaves_key_registered [OF e t l u] e l show ?thesis
    by blast
qed


section \<open>Capabilities and feature flags\<close>

text \<open>
  C3, as the specification has it: on a non-zero exit code the probe returns the
  all-false value. The code reads the flags from the help text whatever the exit
  code is: with exit code 2 and a usage message that names both options, both
  features are reported available and only \<open>installed\<close> is false.
\<close>

theorem capability_probe_nonzero_exit_counterexample:
  "fst (get_whisper_capabilities_cached None
     (RunCompleted 2 [] ''usage: whisper [--word_timestamps W] [--highlight_words H]'')) =
   \<lparr> word_timestamps_available = True, highlight_words_available = True, installed = False \<rparr> \<and>
   fst (get_whisper_capabilities_cached None
     (RunCompleted 2 [] ''usage: whisper [--word_timestamps W] [--highlight_words H]'')) \<noteq>
   \<lparr> word_timestamps_available = False, highlight_words_available = False, installed = False \<rparr>"
  by (simp add: get_whisper_capabilities_cached_def get_whisper_capabilities_def Let_def)

text \<open>
  C3, amended: the probe always returns a value. When running the tool raises (tool
  missing, timeout) the value is all-false. When the tool runs, \<open>installed\<close> is true
  exactly for exit code 0, and each feature flag says whether the help text, standard
  output followed by standard error, contains the option, also for a non-zero exit
  code.
\<close>

theorem capability_probe_total:
  "fst (get_whisper_capabilities_cached None (RunRaises e)) =
     \<lparr> word_timestamps_available = False, highlight_words_available = False,
       installed = False \<rparr> \<and>
   installed (fst (get_whisper_capabilities_cached None (RunCompleted rc out err))) = (rc = 0) \<and>
   word_timestamps_available (fst (get_whisper_capabilities_cached None (RunCompleted rc out err)))
     = str_contains (out @ err) ''--word_timestamps'' \<and>
   highlight_words_available (fst (get_whisper_capabilities_cached None (RunCompleted rc out err)))
     = str_contains (out @ err) ''--highlight_words''"
  by (simp add: get_whisper_capabilities_cached_def get_whisper_capabilities_def Let_def)

text \<open>
  C4, as the specification has it: the highlight flag is passed exactly when
  highlighting is requested and available, whatever the word-timestamps flag. With
  every capability present, highlighting requested and word timestamps not requested,
  the command has no highlight flag.
\<close>

theorem highlight_flag_counterexample:
  "\<not> ((''--highlight_words'' \<in>
         set (whisper_cmd ''/books/b/01.mp3'' ''/books/b'' False True caps_all))
      = (True \<and> highlight_words_available caps_all))"
  by (simp add: whisper_cmd_def caps_all_def MODEL_def)

text \<open>
  C4, amended: among the arguments that follow the ten fixed ones, the
  word-timestamps flag is there exactly when word timestamps are requested and
  available, and the highlight flag is there exactly when, in addition, highlighting
  is requested and available. The runner and the benchmark build their commands
  alike.
\<close>

theorem feature_flags_enabled:
  "(''--word_timestamps'' \<in> set (drop 10 (whisper_cmd p f ewt ehl c))) =
      (ewt \<and> word_timestamps_available c) \<and>
   (''--highlight_words'' \<in> set (drop 10 (whisper_cmd p f ewt ehl c))) =
      ((ewt \<and> word_timestamps_available c) \<and> (ehl \<and> highlight_words_available c)) \<and>
   (''--word_timestamps'' \<in> set (drop 10 (speed_test_cmd a m d s c))) =
      (settings_get s ''word_timestamps'' True \<and> word_timestamps_available c) \<and>
   (''--highlight_words'' \<in> set (drop 10 (speed_test_cmd a m d s c))) =
      ((settings_get s ''word_timestamps'' True \<and> word_timestamps_available c) \<and>
       (settings_get s ''highlighting'' True \<and> highlight_words_available c))"
  by (auto simp add: whisper_cmd_def speed_test_cmd_def Let_def)


section \<open>The speed ratio\<close>

text \<open>
  C5: when the tool returns, the speed ratio of the result is the duration of the
  clip divided by the processing time (the difference of the two clock readings) if
  both are strictly positive, and 0 otherwise; a clip of duration 10 processed in 5
  gives 2, a duration of 0 or a processing time of 0 gives 0.
\<close>

theorem speed_ratio_computed:
  "speed_ratio (test_whisper_speed a m s d c (\<lambda>cmd. SpeedCompleted rc err t0 t1) dur) =
     (if dur > 0 \<and> t1 - t0 > 0 then dur / (t1 - t0) else 0) \<and>
   processing_time (test_whisper_speed a m s d c (\<lambda>cmd. SpeedCompleted rc err t0 t1) dur)
     = t1 - t0 \<and>
   audio_duration (test_whisper_speed a m s d c (\<lambda>cmd. SpeedCompleted rc err t0 t1) dur)
     = dur \<and>
   speed_ratio (test_whisper_speed a m s d c (\<lambda>cmd. SpeedCompleted rc err t0 (t0 + 5)) 10)
     = 2 \<and>
   speed_ratio (test_whisper_speed a m s d c (\<lambda>cmd. SpeedCompleted rc err t0 t1) 0) = 0 \<and>
   speed_ratio (test_whisper_speed a m s d c (\<lambda>cmd. SpeedCompleted rc err t0 t0) dur) = 0"
  by (simp add: test_whisper_speed_def Let_def)

lemma speed_ratio_failed_run:
  "speed_ratio (test_whisper_speed a m s d c (\<lambda>cmd. SpeedTimeout) dur) = 0 \<and>
   speed_ratio (test_whisper_speed a m s d c (\<lambda>cmd. SpeedRaises e) dur) = 0"
  by (simp add: test_whisper_speed_def Let_def)


section \<open>The key of a configuration\<close>




section \<open>Blank lines of the tool\<close>












section \<open>The store\<close>

text \<open>
  C6: with writes that succeed, a record put under a key replaces the one put
  before it, and the lookup of that key finds the later record; the lookup of a key
  that is not in the file and was not put answers NotFound, also when there is no
  file; a put loads the whole dictionary, sets the one key and writes the whole
  dictionary back, so the record of every other key stays as it was. The route looks
  up the key of its query.
\<close>

theorem speed_ratio_store_last_write_wins:
  "find_speed_ratio k (save_speed_ratio_data k r2 Written (save_speed_ratio_data k r1 Written f))
     = Found r2 \<and>
   load_saved_speed_ratios (save_speed_ratio_data k r Written f)
     = (load_saved_speed_ratios f)(k \<mapsto> r) \<and>
   (k' \<noteq> k \<longrightarrow>
      load_saved_speed_ratios (save_speed_ratio_data k r Written f) k'
        = load_saved_speed_ratios f k') \<and>
   (load_saved_speed_ratios f k' = None \<longrightarrow> k' \<noteq> k \<longrightarrow>
      find_speed_ratio k' (save_speed_ratio_data k r Written f)
        = NotFound (''No speed ratio found for key: '' @ k')) \<and>
   find_speed_ratio k' (NoFile :: 'r speed_file) = NotFound (''No speed ratio found for key: '' @ k') \<and>
   get_speed_ratio_route model wt hl f =
     find_speed_ratio
       (get_speed_test_key (get_default model MODEL)
          [''word_timestamps'' \<mapsto> wt, ''highlighting'' \<mapsto> hl]) f"
  by (simp add: find_speed_ratio_def save_speed_ratio_data_def load_saved_speed_ratios_def
      get_speed_ratio_route_def Let_def)

theorem speed_ratio_store_last_write_wins_witness:
  "find_speed_ratio ''medium:True:True''
     (save_speed_ratio_data ''medium:True:True'' (2::real) Written
        (save_speed_ratio_data ''medium:True:True'' 1 Written
           (Stored [''small:True:True'' \<mapsto> 3]))) = Found 2 \<and>
   load_saved_speed_ratios
     (save_speed_ratio_data ''medium:True:True'' (2::real) Written
        (Stored [''small:True:True'' \<mapsto> 3])) ''small:True:True'' = Some 3 \<and>
   find_speed_ratio ''large:True:True''
     (save_speed_ratio_data ''medium:True:True'' (2::real) Written
        (Stored [''small:True:True'' \<mapsto> 3]))
     = NotFound ''No speed ratio found for key: large:True:True''"
proof -
  note T = speed_ratio_store_last_write_wins
  have a: "find_speed_ratio ''medium:True:True''
     (save_speed_ratio_data ''medium:True:True'' (2::real) Written
        (save_speed_ratio_data ''medium:True:True'' 1 Written
           (Stored [''small:True:True'' \<mapsto> 3]))) = Found 2"
    by (rule T [THEN conjunct1])
  have ne: "''small:True:True'' \<noteq> ''medium:True:True''"
    by simp
  have "load_saved_speed_ratios
     (save_speed_ratio_data ''medium:True:True'' (2::real) Written
        (Stored [''small:True:True'' \<mapsto> 3])) ''small:True:True'' =
     load_saved_speed_ratios (Stored [''small:True:True'' \<mapsto> (3::real)]) ''small:True:True''"
    by (rule T [THEN conjunct2, THEN conjunct2, THEN conjunct1, rule_format, OF ne])
  then have b: "load_saved_speed_ratios
     (save_speed_ratio_data ''medium:True:True'' (2::real) Written
        (Stored [''small:True:True'' \<mapsto> 3])) ''small:True:True'' = Some 3"
    by (simp add: load_saved_speed_ratios_def)
  have n: "load_saved_speed_ratios (Stored [''small:True:True'' \<mapsto> (3::real)]) ''large:True:True'' = None"
    by (simp add: load_saved_speed_ratios_def)
  have ne': "''large:True:True'' \<noteq> ''medium:True:True''"
    by simp
  have c: "find_speed_ratio ''large:True:True''
     (save_speed_ratio_data ''medium:True:True'' (2::real) Written
        (Stored [''small:True:True'' \<mapsto> 3]))
     = NotFound ''No speed ratio found for key: large:True:True''"
    using T [THEN conjunct2, THEN conjunct2, THEN conjunct2, THEN conjunct1, rule_format, OF n ne']
    by simp
  from a b c show ?thesis by blast
qed


section \<open>The batch in parallel\<close>

lemma tagged_not_banner: "c \<noteq> d \<Longrightarrow> count_list (map (\<lambda>line. c # f line) ls) (d # b) = 0"
  by (induction ls) auto

lemma block_count:
  "count_list (future_block book x env) (''\<newline>=== COMPLETED: '' @ m @ '' ===\<newline>'') +
   count_list (future_block book x env) (''\<newline>=== ERROR: '' @ m @ '' ===\<newline>'') =
   (if x = m then 1 else 0)"
  by (simp add: future_block_def transcribe_single_def Let_def tagged_not_banner
      split: option.splits)

lemma emit_completed_count:
  "count_list (emit_completed book env_of fs) (''\<newline>=== COMPLETED: '' @ m @ '' ===\<newline>'') +
   count_list (emit_completed book env_of fs) (''\<newline>=== ERROR: '' @ m @ '' ===\<newline>'') =
   count_list fs m"
proof (induction fs)
  case Nil
  then show ?case by simp
next
  case (Cons x fs)
  have "count_list (emit_completed book env_of (x # fs)) (''\<newline>=== COMPLETED: '' @ m @ '' ===\<newline>'') +
        count_list (emit_completed book env_of (x # fs)) (''\<newline>=== ERROR: '' @ m @ '' ===\<newline>'') =
        (count_list (future_block book x (env_of x)) (''\<newline>=== COMPLETED: '' @ m @ '' ===\<newline>'') +
         count_list (future_block book x (env_of x)) (''\<newline>=== ERROR: '' @ m @ '' ===\<newline>'')) +
        (count_list (emit_completed book env_of fs) (''\<newline>=== COMPLETED: '' @ m @ '' ===\<newline>'') +
         count_list (emit_completed book env_of fs) (''\<newline>=== ERROR: '' @ m @ '' ===\<newline>''))"
    by simp
  also have "\<dots> = (if x = m then 1 else 0) + count_list fs m"
    by (simp only: block_count Cons.IH)
  finally show ?case by simp
qed

lemma as_completed_count: "count_list (as_completed rank fs) m = count_list fs m"
proof -
  have "mset (as_completed rank fs) = mset fs"
    by (simp add: as_completed_def)
  then have "count (mset (as_completed rank fs)) m = count (mset fs) m"
    by simp
  then show ?thesis
    by (simp only: count_mset)
qed

lemma emit_completed_append:
  "emit_completed book env_of (xs @ ys) = emit_completed book env_of xs @ emit_completed book env_of ys"
  by (induction xs) simp_all

lemma emit_completed_block:
  "m \<in> set fs \<Longrightarrow> sublist (future_block book m (env_of m)) (emit_completed book env_of fs)"
proof -
  assume "m \<in> set fs"
  then obtain pre post where "fs = pre @ m # post"
    by (auto simp: in_set_conv_decomp)
  then have "emit_completed book env_of fs =
    emit_completed book env_of pre @ future_block book m (env_of m) @ emit_completed book env_of post"
    by (simp add: emit_completed_append)
  then show ?thesis
    by (auto simp: sublist_def)
qed

text \<open>
  C7: with a positive number of workers the scheduler ends without an exception,
  and for every item the output holds as many opening banners of that item, the
  completion banner or the error banner, as the batch holds the item: exactly one for
  an item that is in the batch once. The block of every item of the batch is in the
  output: the completion banner, the tagged lines of its run and the end banner, or,
  when its worker raised, the error banner, the text of the exception and the end
  banner of the error. What the other items do, raising included, does not change
  that.
\<close>

theorem parallel_every_item_once:
  "0 < max_workers \<Longrightarrow>
   snd (whisper_stream_parallel book mp3_files max_workers env_of rank) = None \<and>
   count_list (fst (whisper_stream_parallel book mp3_files max_workers env_of rank))
       (''\<newline>=== COMPLETED: '' @ m @ '' ===\<newline>'') +
   count_list (fst (whisper_stream_parallel book mp3_files max_workers env_of rank))
       (''\<newline>=== ERROR: '' @ m @ '' ===\<newline>'') = count_list mp3_files m \<and>
   (m \<in> set mp3_files \<longrightarrow>
      sublist (future_block book m (env_of m))
        (fst (whisper_stream_parallel book mp3_files max_workers env_of rank))) \<and>
   future_block book m (env_of m) =
     (case raised (whisper_stream book m True True (env_of m)) of
        None \<Rightarrow> [''\<newline>=== COMPLETED: '' @ m @ '' ===\<newline>''] @
                map (\<lambda>line. ''['' @ m @ ''] '' @ line)
                  (narration (whisper_stream book m True True (env_of m))) @
                [''=== END: '' @ m @ '' ===\<newline>\<newline>'']
      | Some e \<Rightarrow> [''\<newline>=== ERROR: '' @ m @ '' ===\<newline>'',
                   ''Exception: '' @ e @ ''\<newline>'',
                   ''=== END ERROR: '' @ m @ '' ===\<newline>\<newline>''])"
proof -
  assume mw: "0 < max_workers"
  let ?out = "whisper_stream_parallel book mp3_files max_workers env_of rank"
  let ?start = "''Starting parallel transcription of '' @ str_nat (length mp3_files) @
                  '' files with '' @ str_int max_workers @ '' workers\<newline>\<newline>''"
  have out: "?out = (?start # emit_completed book env_of (as_completed rank mp3_files), None)"
    using mw by (simp add: whisper_stream_parallel_def)
  have c: "count_list (fst ?out) (''\<newline>=== COMPLETED: '' @ m @ '' ===\<newline>'') +
           count_list (fst ?out) (''\<newline>=== ERROR: '' @ m @ '' ===\<newline>'') = count_list mp3_files m"
    using emit_completed_count [of book env_of "as_completed rank mp3_files" m]
    by (simp add: out as_completed_count)
  have s: "m \<in> set mp3_files \<longrightarrow> sublist (future_block book m (env_of m)) (fst ?out)"
  proof
    assume "m \<in> set mp3_files"
    then have "m \<in> set (as_completed rank mp3_files)"
      by (simp add: as_completed_def)
    then have "sublist (future_block book m (env_of m))
                 (emit_completed book env_of (as_completed rank mp3_files))"
      by (rule emit_completed_block)
    then show "sublist (future_block book m (env_of m)) (fst ?out)"
      by (simp add: out sublist_Cons_right)
  qed
  have b: "future_block book m (env_of m) =
     (case raised (whisper_stream book m True True (env_of m)) of
        None \<Rightarrow> [''\<newline>=== COMPLETED: '' @ m @ '' ===\<newline>''] @
                map (\<lambda>line. ''['' @ m @ ''] '' @ line)
                  (narration (whisper_stream book m True True (env_of m))) @
                [''=== END: '' @ m @ '' ===\<newline>\<newline>'']
      | Some e \<Rightarrow> [''\<newline>=== ERROR: '' @ m @ '' ===\<newline>'',
                   ''Exception: '' @ e @ ''\<newline>'',
                   ''=== END ERROR: '' @ m @ '' ===\<newline>\<newline>''])"
    by (simp add: future_block_def transcribe_single_def Let_def split: option.splits)
  from out c s b show ?thesis by simp
qed

theorem parallel_every_item_once_witness:
  "(0::int) < 2 \<and>
   snd (whisper_stream_parallel ''b'' [''a.mp3'', ''b.mp3'', ''c.mp3''] 2 three_items finish_order) = None \<and>
   count_list (fst (whisper_stream_parallel ''b'' [''a.mp3'', ''b.mp3'', ''c.mp3''] 2 three_items finish_order))
       ''\<newline>=== COMPLETED: a.mp3 ===\<newline>'' +
   count_list (fst (whisper_stream_parallel ''b'' [''a.mp3'', ''b.mp3'', ''c.mp3''] 2 three_items finish_order))
       ''\<newline>=== ERROR: a.mp3 ===\<newline>'' = 1 \<and>
   count_list (fst (whisper_stream_parallel ''b'' [''a.mp3'', ''b.mp3'', ''c.mp3''] 2 three_items finish_order))
       ''\<newline>=== COMPLETED: c.mp3 ===\<newline>'' +
   count_list (fst (whisper_stream_parallel ''b'' [''a.mp3'', ''b.mp3'', ''c.mp3''] 2 three_items finish_order))
       ''\<newline>=== ERROR: c.mp3 ===\<newline>'' = 1 \<and>
   sublist [''\<newline>=== ERROR: c.mp3 ===\<newline>'', ''Exception: Permission denied\<newline>'',
            ''=== END ERROR: c.mp3 ===\<newline>\<newline>'']
     (fst (whisper_stream_parallel ''b'' [''a.mp3'', ''b.mp3'', ''c.mp3''] 2 three_items finish_order))"
proof -
  have mw: "(0::int) < 2"
    by simp
  note A = parallel_every_item_once [OF mw, of "''b''" "[''a.mp3'', ''b.mp3'', ''c.mp3'']"
      three_items finish_order "''a.mp3''"]
  note C = parallel_every_item_once [OF mw, of "''b''" "[''a.mp3'', ''b.mp3'', ''c.mp3'']"
      three_items finish_order "''c.mp3''"]
  have n: "snd (whisper_stream_parallel ''b'' [''a.mp3'', ''b.mp3'', ''c.mp3''] 2 three_items finish_order) = None"
    by (rule A [THEN conjunct1])
  have a: "count_list (fst (whisper_stream_parallel ''b'' [''a.mp3'', ''b.mp3'', ''c.mp3''] 2 three_items finish_order))
       ''\<newline>=== COMPLETED: a.mp3 ===\<newline>'' +
   count_list (fst (whisper_stream_parallel ''b'' [''a.mp3'', ''b.mp3'', ''c.mp3''] 2 three_items finish_order))
       ''\<newline>=== ERROR: a.mp3 ===\<newline>'' = 1"
    using A [THEN conjunct2, THEN conjunct1] by simp
  have c: "count_list (fst (whisper_stream_parallel ''b'' [''a.mp3'', ''b.mp3'', ''c.mp3''] 2 three_items finish_order))
       ''\<newline>=== COMPLETED: c.mp3 ===\<newline>'' +
   count_list (fst (whisper_stream_parallel ''b'' [''a.mp3'', ''b.mp3'', ''c.mp3''] 2 three_items finish_order))
       ''\<newline>=== ERROR: c.mp3 ===\<newline>'' = 1"
    using C [THEN conjunct2, THEN conjunct1] by simp
  have i: "''c.mp3'' \<in> set [''a.mp3'', ''b.mp3'', ''c.mp3'']"
    by simp
  have blk: "future_block ''b'' ''c.mp3'' (three_items ''c.mp3'') =
     [''\<newline>=== ERROR: c.mp3 ===\<newline>'', ''Exception: Permission denied\<newline>'',
      ''=== END ERROR: c.mp3 ===\<newline>\<newline>'']"
    using C [THEN conjunct2, THEN conjunct2, THEN conjunct2]
    by (simp add: three_items_def denied_env_def whisper_stream_def)
  have s: "sublist [''\<newline>=== ERROR: c.mp3 ===\<newline>'', ''Exception: Permission denied\<newline>'',
            ''=== END ERROR: c.mp3 ===\<newline>\<newline>'']
     (fst (whisper_stream_parallel ''b'' [''a.mp3'', ''b.mp3'', ''c.mp3''] 2 three_items finish_order))"
    using C [THEN conjunct2, THEN conjunct2, THEN conjunct1, rule_format, OF i]
    by (simp only: blk)
  from mw n a c s show ?thesis by blast
qed


section \<open>Feature flags of a batch\<close>

lemma route_parallel:
  "get_default (req_parallel data) False \<Longrightarrow> 1 < length files \<Longrightarrow>
   stream_book_captions_route data files env_of rank =
     whisper_stream_parallel (req_book data) files (get_default (req_max_workers data) 2) env_of rank"
  by (auto simp: stream_book_captions_route_def Let_def)

lemma route_sequential:
  "\<not> get_default (req_parallel data) False \<or> length files = 1 \<Longrightarrow> files \<noteq> [] \<Longrightarrow>
   stream_book_captions_route data files env_of rank =
     batch (req_book data) (get_default (req_word_timestamps data) True)
       (get_default (req_highlighting data) True) env_of files"
  by (auto simp: stream_book_captions_route_def Let_def)

lemma batch_single:
  "batch book ewt ehl env_of [mp3] =
     ((''\<newline>=== '' @ mp3 @ '' ===\<newline>'') # narration (whisper_stream book mp3 ewt ehl (env_of mp3)),
      raised (whisper_stream book mp3 ewt ehl (env_of mp3)))"
  by (simp add: Let_def split: option.splits)

lemma batch_no_raise:
  "\<forall>m \<in> set files. raised (whisper_stream book m ewt ehl (env_of m)) = None \<Longrightarrow>
   batch book ewt ehl env_of files =
     (concat (map (\<lambda>m. (''\<newline>=== '' @ m @ '' ===\<newline>'') #
                         narration (whisper_stream book m ewt ehl (env_of m))) files), None)"
  by (induction files) (simp_all add: Let_def)

lemma batch_raise:
  "\<forall>m \<in> set pre. raised (whisper_stream book m ewt ehl (env_of m)) = None \<Longrightarrow>
   raised (whisper_stream book mp3 ewt ehl (env_of mp3)) = Some e \<Longrightarrow>
   batch book ewt ehl env_of (pre @ mp3 # post) =
     (concat (map (\<lambda>m. (''\<newline>=== '' @ m @ '' ===\<newline>'') #
                         narration (whisper_stream book m ewt ehl (env_of m))) (pre @ [mp3])),
      Some e)"
  by (induction pre) (simp_all add: Let_def)

text \<open>
  C10: the worker of the parallel path calls \<open>whisper_stream\<close> with both flags true,
  whatever the request says. A request for the parallel path with more than one file
  is answered by \<open>whisper_stream_parallel\<close>, and the answer is the same for any
  word-timestamps and highlighting flags in the request. A request for the
  sequential path is answered by \<open>batch\<close> with the flags of the request (true when
  absent), and \<open>batch\<close> hands them to \<open>whisper_stream\<close> for every file: its output is, file
  after file, the banner of the file and the narration of \<open>whisper_stream\<close> with these
  flags, to the end of the list or to the first file whose run raises.
\<close>

theorem parallel_path_ignores_flags:
  "transcribe_single book mp3 env =
     (case raised (whisper_stream book mp3 True True env) of
        Some e \<Rightarrow> Inl e
      | None \<Rightarrow> Inr (mp3, map (\<lambda>line. ''['' @ mp3 @ ''] '' @ line)
                             (narration (whisper_stream book mp3 True True env)))) \<and>
   (get_default (req_parallel data) False \<longrightarrow> 1 < length files \<longrightarrow>
      stream_book_captions_route data files env_of rank =
        whisper_stream_parallel (req_book data) files
          (get_default (req_max_workers data) 2) env_of rank \<and>
      stream_book_captions_route
        (data\<lparr>req_word_timestamps := wt, req_highlighting := hl\<rparr>) files env_of rank =
      stream_book_captions_route data files env_of rank) \<and>
   (\<not> get_default (req_parallel data) False \<or> length files = 1 \<longrightarrow> files \<noteq> [] \<longrightarrow>
      stream_book_captions_route data files env_of rank =
        batch (req_book data) (get_default (req_word_timestamps data) True)
          (get_default (req_highlighting data) True) env_of files) \<and>
   batch book ewt ehl env_of [mp3] =
     ((''\<newline>=== '' @ mp3 @ '' ===\<newline>'') #
        narration (whisper_stream book mp3 ewt ehl (env_of mp3)),
      raised (whisper_stream book mp3 ewt ehl (env_of mp3))) \<and>
   ((\<forall>m \<in> set files. raised (whisper_stream book m ewt ehl (env_of m)) = None) \<longrightarrow>
      batch book ewt ehl env_of files =
        (concat (map (\<lambda>m. (''\<newline>=== '' @ m @ '' ===\<newline>'') #
                            narration (whisper_stream book m ewt ehl (env_of m))) files),
         None)) \<and>
   ((\<forall>m \<in> set pre. raised (whisper_stream book m ewt ehl (env_of m)) = None) \<longrightarrow>
    raised (whisper_stream book mp3 ewt ehl (env_of mp3)) = Some e \<longrightarrow>
      batch book ewt ehl env_of (pre @ mp3 # post) =
        (concat (map (\<lambda>m. (''\<newline>=== '' @ m @ '' ===\<newline>'') #
                            narration (whisper_stream book m ewt ehl (env_of m)))
                   (pre @ [mp3])),
         Some e))"
proof -
  have t: "transcribe_single book mp3 env =
     (case raised (whisper_stream book mp3 True True env) of
        Some e \<Rightarrow> Inl e
      | None \<Rightarrow> Inr (mp3, map (\<lambda>line. ''['' @ mp3 @ ''] '' @ line)
                             (narration (whisper_stream book mp3 True True env))))"
    by (simp add: transcribe_single_def Let_def)
  have p: "get_default (req_parallel data) False \<longrightarrow> 1 < length files \<longrightarrow>
      stream_book_captions_route data files env_of rank =
        whisper_stream_parallel (req_book data) files
          (get_default (req_max_workers data) 2) env_of rank \<and>
      stream_book_captions_route
        (data\<lparr>req_word_timestamps := wt, req_highlighting := hl\<rparr>) files env_of rank =
      stream_book_captions_route data files env_of rank"
    by (simp add: route_parallel)
  have q: "\<not> get_default (req_parallel data) False \<or> length files = 1 \<longrightarrow> files \<noteq> [] \<longrightarrow>
      stream_book_captions_route data files env_of rank =
        batch (req_book data) (get_default (req_word_timestamps data) True)
          (get_default (req_highlighting data) True) env_of files"
    using route_sequential [of data files env_of rank] by blast
  have r: "(\<forall>m \<in> set files. raised (whisper_stream book m ewt ehl (env_of m)) = None) \<longrightarrow>
      batch book ewt ehl env_of files =
        (concat (map (\<lambda>m. (''\<newline>=== '' @ m @ '' ===\<newline>'') #
                            narration (whisper_stream book m ewt ehl (env_of m))) files),
         None)"
    using batch_no_raise [of files book ewt ehl env_of] by blast
  have s: "(\<forall>m \<in> set pre. raised (whisper_stream book m ewt ehl (env_of m)) = None) \<longrightarrow>
    raised (whisper_stream book mp3 ewt ehl (env_of mp3)) = Some e \<longrightarrow>
      batch book ewt ehl env_of (pre @ mp3 # post) =
        (concat (map (\<lambda>m. (''\<newline>=== '' @ m @ '' ===\<newline>'') #
                            narration (whisper_stream book m ewt ehl (env_of m)))
                   (pre @ [mp3])),
         Some e)"
    using batch_raise [of pre book ewt ehl env_of mp3 e post] by blast
  from t p q r s batch_single [of book ewt ehl env_of mp3] show ?thesis
    by blast
qed

theorem parallel_path_ignores_flags_witness:
  "stream_book_captions_route
     \<lparr> req_book = ''b'', req_parallel = Some True, req_max_workers = None,
       req_word_timestamps = Some False, req_highlighting = Some False \<rparr>
     [''a.mp3'', ''b.mp3''] three_items finish_order =
   whisper_stream_parallel ''b'' [''a.mp3'', ''b.mp3''] 2 three_items finish_order \<and>
   ''[a.mp3] Word timestamps: enabled\<newline>'' \<in> set (fst (stream_book_captions_route
     \<lparr> req_book = ''b'', req_parallel = Some True, req_max_workers = None,
       req_word_timestamps = Some False, req_highlighting = Some False \<rparr>
     [''a.mp3'', ''b.mp3''] three_items finish_order)) \<and>
   stream_book_captions_route
     \<lparr> req_book = ''b'', req_parallel = None, req_max_workers = None,
       req_word_timestamps = Some False, req_highlighting = Some False \<rparr>
     [''a.mp3'', ''b.mp3''] three_items finish_order =
   (concat (map (\<lambda>m. (''\<newline>=== '' @ m @ '' ===\<newline>'') #
                       narration (whisper_stream ''b'' m False False (three_items m)))
              [''a.mp3'', ''b.mp3'']), None) \<and>
   ''Word timestamps: disabled\<newline>'' \<in>
     set (narration (whisper_stream ''b'' ''b.mp3'' False False (three_items ''b.mp3'')))"
proof -
  let ?par = "\<lparr> req_book = ''b'', req_parallel = Some True, req_max_workers = None,
       req_word_timestamps = Some False, req_highlighting = Some False \<rparr>"
  let ?seq = "\<lparr> req_book = ''b'', req_parallel = None, req_max_workers = None,
       req_word_timestamps = Some False, req_highlighting = Some False \<rparr>"
  note P = parallel_path_ignores_flags [of "''b''" "''a.mp3''" failing_run_env ?par
      "[''a.mp3'', ''b.mp3'']" three_items finish_order "Some True" "Some True" False False
      "[]" "''x''" "[]"]
  note S = parallel_path_ignores_flags [of "''b''" "''a.mp3''" failing_run_env ?seq
      "[''a.mp3'', ''b.mp3'']" three_items finish_order "Some True" "Some True" False False
      "[]" "''x''" "[]"]
  have g: "get_default (req_parallel ?par) False"
    by (simp add: get_default_def)
  have l: "1 < length [''a.mp3'', ''b.mp3'']"
    by simp
  have a: "stream_book_captions_route ?par [''a.mp3'', ''b.mp3''] three_items finish_order =
           whisper_stream_parallel ''b'' [''a.mp3'', ''b.mp3''] 2 three_items finish_order"
    using P [THEN conjunct2, THEN conjunct1, rule_format, OF g l, THEN conjunct1]
    by (simp add: get_default_def)
  have r: "raised (whisper_stream ''b'' ''a.mp3'' True True (three_items ''a.mp3'')) = None"
    by (simp add: whisper_stream_raised three_items_def failing_run_env_def)
  have m: "''Word timestamps: enabled\<newline>'' \<in>
           set (narration (whisper_stream ''b'' ''a.mp3'' True True (three_items ''a.mp3'')))"
    by (simp add: whisper_stream_def three_items_def failing_run_env_def caps_all_def Let_def)
  have "''['' @ ''a.mp3'' @ ''] '' @ ''Word timestamps: enabled\<newline>'' \<in>
        (\<lambda>line. ''['' @ ''a.mp3'' @ ''] '' @ line) `
          set (narration (whisper_stream ''b'' ''a.mp3'' True True (three_items ''a.mp3'')))"
    using m by (rule imageI)
  then have fb: "''[a.mp3] Word timestamps: enabled\<newline>'' \<in>
                 set (future_block ''b'' ''a.mp3'' (three_items ''a.mp3''))"
    by (simp add: future_block_def transcribe_single_def r Let_def)
  have "''[a.mp3] Word timestamps: enabled\<newline>'' \<in>
           set (fst (whisper_stream_parallel ''b'' [''a.mp3'', ''b.mp3''] 2 three_items finish_order))"
    by (simp add: whisper_stream_parallel_def as_completed_def finish_order_def fb)
  then have b: "''[a.mp3] Word timestamps: enabled\<newline>'' \<in>
           set (fst (stream_book_captions_route ?par [''a.mp3'', ''b.mp3''] three_items finish_order))"
    by (simp only: a)
  have h: "\<not> get_default (req_parallel ?seq) False \<or> length [''a.mp3'', ''b.mp3''] = 1"
    by (simp add: get_default_def)
  have ne: "[''a.mp3'', ''b.mp3''] \<noteq> []"
    by simp
  have c: "stream_book_captions_route ?seq [''a.mp3'', ''b.mp3''] three_items finish_order =
           batch ''b'' False False three_items [''a.mp3'', ''b.mp3'']"
    using S [THEN conjunct2, THEN conjunct2, THEN conjunct1, rule_format, OF h ne]
    by (simp add: get_default_def)
  have ok: "\<forall>m \<in> set [''a.mp3'', ''b.mp3''].
              raised (whisper_stream ''b'' m False False (three_items m)) = None"
    by (simp add: whisper_stream_raised three_items_def failing_run_env_def)
  have d: "batch ''b'' False False three_items [''a.mp3'', ''b.mp3''] =
     (concat (map (\<lambda>m. (''\<newline>=== '' @ m @ '' ===\<newline>'') #
                         narration (whisper_stream ''b'' m False False (three_items m)))
                [''a.mp3'', ''b.mp3'']), None)"
    by (rule S [THEN conjunct2, THEN conjunct2, THEN conjunct2, THEN conjunct2, THEN conjunct1,
          THEN mp, OF ok])
  have f: "''Word timestamps: disabled\<newline>'' \<in>
     set (narration (whisper_stream ''b'' ''b.mp3'' False False (three_items ''b.mp3'')))"
    by (simp add: whisper_stream_def three_items_def failing_run_env_def Let_def)
  from a b c d f show ?thesis
    by (simp only: simp_thms)
qed

end
